theory Spec2Isabelle
  imports Main "HOL-Library.Word"
begin

unbundle bit_operations_syntax

section \<open>Network proxy server (sandbox2/network\_proxy/server.cc)\<close>

text \<open>
  The server runs on its own thread and talks to the sandboxee over a \<open>Comms\<close>
  channel. Everything it does to the outside world is recorded as an \<open>action\<close>, in
  program order; everything the outside world answers is read from an \<open>env\<close> record,
  one per call of \<open>ProcessConnectRequest\<close>.
\<close>

type_synonym byte = "8 word"

datatype action =
    SendInt32 int          \<comment> \<open>\<open>comms_->SendInt32(v)\<close> was called\<close>
  | SendFD int             \<comment> \<open>\<open>comms_->SendFD(fd)\<close> was called\<close>
  | SocketCall nat         \<comment> \<open>\<open>socket(family, SOCK_STREAM, 0)\<close> was called\<close>
  | ConnectCall int        \<comment> \<open>\<open>connect(fd, addr, len)\<close> was called\<close>
  | CloseFd int            \<comment> \<open>the \<open>FDCloser\<close> of the new socket ran\<close>
  | NotifyViolationFn      \<comment> \<open>\<open>notify_violation_fn_()\<close> was called\<close>

record env =
  recv_bytes :: "byte list option"   \<comment> \<open>\<open>RecvBytes\<close>: \<open>None\<close> when it returns false\<close>
  send_int32_ok :: bool              \<comment> \<open>what \<open>SendInt32\<close> returns\<close>
  socket_ret :: int                  \<comment> \<open>what \<open>socket()\<close> returns\<close>
  socket_errno :: int                \<comment> \<open>\<open>errno\<close> after a failed \<open>socket()\<close>\<close>
  connect_ret :: int                 \<comment> \<open>what \<open>connect()\<close> returns\<close>
  connect_errno :: int               \<comment> \<open>\<open>errno\<close> after a failed \<open>connect()\<close>\<close>
  send_fd_ok :: bool                 \<comment> \<open>what \<open>SendFD\<close> returns\<close>

record server =
  violation_occurred :: bool
  fatal_error :: bool
  violation_msg :: string

text \<open>
  The collaborators whose code is not part of the server: the allowlist
  (\<open>AllowedHosts::IsHostAllowed\<close>) and the printer of addresses (\<open>AddrToString\<close>,
  a \<open>StatusOr\<close>: \<open>Inl\<close> carries the message of the error status).
\<close>

record hosts =
  IsHostAllowed :: "byte list \<Rightarrow> bool"
  AddrToString :: "byte list \<Rightarrow> string + string"

definition AF_INET :: nat where "AF_INET = 2"
definition AF_INET6 :: nat where "AF_INET6 = 10"
definition EINVAL :: int where "EINVAL = 22"
definition sizeof_sockaddr_in :: nat where "sizeof_sockaddr_in = 16"
definition sizeof_sockaddr_in6 :: nat where "sizeof_sockaddr_in6 = 28"

text \<open>
  \<open>saddr->sa_family\<close>: the first two bytes of the buffer, read as a native
  (little-endian) 16-bit value. The source reads it only behind the size test, so the
  buffer then holds at least 16 bytes. The sizes of the two address structures, the
  address families and \<open>EINVAL\<close> have their Linux values.
\<close>

definition sa_family :: "byte list \<Rightarrow> nat" where
  "sa_family addr = unat (addr ! 0) + 256 * unat (addr ! 1)"

text \<open>The test of the source, with the short-circuit order of \<open>&&\<close> and \<open>||\<close>.\<close>

definition supported_sockaddr :: "byte list \<Rightarrow> bool" where
  "supported_sockaddr addr =
     (if length addr = sizeof_sockaddr_in \<and> sa_family addr = AF_INET then True
      else length addr = sizeof_sockaddr_in6 \<and> sa_family addr = AF_INET6)"

definition SendError :: "env \<Rightarrow> int \<Rightarrow> server \<Rightarrow> server \<times> action list" where
  "SendError e saved_errno s =
     (if \<not> send_int32_ok e then (s\<lparr>fatal_error := True\<rparr>, [SendInt32 saved_errno])
      else (s, [SendInt32 saved_errno]))"

definition NotifySuccess :: "env \<Rightarrow> server \<Rightarrow> server \<times> action list" where
  "NotifySuccess e s =
     (if \<not> send_int32_ok e then (s\<lparr>fatal_error := True\<rparr>, [SendInt32 0])
      else (s, [SendInt32 0]))"

definition NotifyViolation :: "hosts \<Rightarrow> byte list \<Rightarrow> server \<Rightarrow> server \<times> action list" where
  "NotifyViolation H saddr s =
     (let msg = (case AddrToString H saddr of Inr str \<Rightarrow> str | Inl status_message \<Rightarrow> status_message)
      in (s\<lparr>violation_msg := msg, violation_occurred := True\<rparr>, [NotifyViolationFn]))"

definition ProcessConnectRequest :: "hosts \<Rightarrow> env \<Rightarrow> server \<Rightarrow> server \<times> action list" where
  "ProcessConnectRequest H e s =
     (case recv_bytes e of
        None \<Rightarrow> (s\<lparr>fatal_error := True\<rparr>, [])
      | Some addr \<Rightarrow>
          if \<not> supported_sockaddr addr then SendError e EINVAL s
          else if \<not> IsHostAllowed H addr then NotifyViolation H addr s
          else if socket_ret e < 0
            then (let (s1, a1) = SendError e (socket_errno e) s
                  in (s1, SocketCall (sa_family addr) # a1))
          else if connect_ret e < 0
            then (let (s1, a1) = SendError e (connect_errno e) s
                  in (s1, [SocketCall (sa_family addr), ConnectCall (socket_ret e)] @ a1
                          @ [CloseFd (socket_ret e)]))
          else
            (let (s1, a1) = NotifySuccess e s;
                 pre = [SocketCall (sa_family addr), ConnectCall (socket_ret e)] @ a1
             in if \<not> fatal_error s1
                then (if \<not> send_fd_ok e
                      then (s1\<lparr>fatal_error := True\<rparr>,
                            pre @ [SendFD (socket_ret e), CloseFd (socket_ret e)])
                      else (s1, pre @ [SendFD (socket_ret e), CloseFd (socket_ret e)]))
                else (s1, pre @ [CloseFd (socket_ret e)])))"

text \<open>
  \<open>Run\<close>: the loop \<open>while (!fatal_error_ && !violation_occurred_) ProcessConnectRequest();\<close>.
  The requests that will arrive are a finite script \<open>es\<close>; once the script is used up the
  peer has gone away and \<open>RecvBytes\<close> fails. The function returns the final state, the
  actions in order, and the part of the script it never looked at.
\<close>

definition peer_gone :: env where
  "peer_gone = \<lparr>recv_bytes = None, send_int32_ok = False, socket_ret = -1, socket_errno = 0,
                 connect_ret = -1, connect_errno = 0, send_fd_ok = False\<rparr>"

fun Run :: "hosts \<Rightarrow> env list \<Rightarrow> server \<Rightarrow> server \<times> action list \<times> env list" where
  "Run H [] s =
     (if \<not> fatal_error s \<and> \<not> violation_occurred s
      then (let (s1, a1) = ProcessConnectRequest H peer_gone s in (s1, a1, []))
      else (s, [], []))"
| "Run H (e # es) s =
     (if \<not> fatal_error s \<and> \<not> violation_occurred s
      then (let (s1, a1) = ProcessConnectRequest H e s;
                (s2, a2, rest) = Run H es s1
            in (s2, a1 @ a2, rest))
      else (s, [], e # es))"

text \<open>The constructor: no violation, no fatal error.\<close>

definition NetworkProxyServer :: server where
  "NetworkProxyServer = \<lparr>violation_occurred = False, fatal_error = False, violation_msg = []\<rparr>"

definition is_reply :: "action \<Rightarrow> bool" where
  "is_reply a = (case a of SendInt32 v \<Rightarrow> True | SendFD fd \<Rightarrow> True | _ \<Rightarrow> False)"

section \<open>Monitors: the wall-time limit (monitor\_unotify.h and the header of PtraceMonitor)\<close>

text \<open>
  Both monitor variants keep the deadline in one \<open>std::atomic<int64_t>\<close> (the member
  \<open>deadline_millis_\<close>: Unix milliseconds, 0 when disarmed) and two request flags
  (\<open>std::atomic_flag\<close>, cleared to request). Members are named as in the source,
  without the trailing underscore; the deadline is a 64-bit word, read as a signed
  number by \<open>sint\<close>. \<open>NotifyMonitor()\<close> is the poke that wakes the monitor thread; its
  body is not in the headers, so the model counts its calls. The ptrace monitor also
  wakes up by itself: its header gives the period of \<open>sigtimedwait\<close> as half a second
  (\<open>kWakeUpPeriodNSec\<close>). A store to the atomic is one update of the field.
\<close>

record monitor =
  deadline_millis :: "64 word"
  external_kill_request_flag :: bool
  dump_stack_request_flag :: bool
  notify_calls :: nat

text \<open>
  The time library (absl) is not part of the repository. What \<open>SetWallTimeLimit\<close> uses
  of it is taken as given: the types \<open>absl::Duration\<close> (\<open>'d\<close>) and \<open>absl::Time\<close>
  (\<open>'t\<close>), whatever values they have (infinite ones included), the zero duration, what
  \<open>absl::Now()\<close> returns during the call, the sum of a time and a duration, and
  \<open>absl::ToUnixMillis\<close>, whose result is an \<open>int64_t\<close>.
\<close>

record ('d, 't) absl_time =
  ZeroDuration :: 'd
  Now :: 't
  plus_duration :: "'t \<Rightarrow> 'd \<Rightarrow> 't"
  ToUnixMillis :: "'t \<Rightarrow> 64 word"

definition NotifyMonitor :: "monitor \<Rightarrow> monitor" where
  "NotifyMonitor m = m\<lparr>notify_calls := Suc (notify_calls m)\<rparr>"

definition PtraceMonitor_Kill :: "monitor \<Rightarrow> monitor" where
  "PtraceMonitor_Kill m = NotifyMonitor (m\<lparr>external_kill_request_flag := False\<rparr>)"

definition UnotifyMonitor_Kill :: "monitor \<Rightarrow> monitor" where
  "UnotifyMonitor_Kill m = NotifyMonitor (m\<lparr>external_kill_request_flag := False\<rparr>)"

definition PtraceMonitor_SetWallTimeLimit ::
  "('d, 't) absl_time \<Rightarrow> 'd \<Rightarrow> monitor \<Rightarrow> monitor" where
  "PtraceMonitor_SetWallTimeLimit absl limit m =
     (if limit = ZeroDuration absl then m\<lparr>deadline_millis := 0\<rparr>
      else (let deadline = plus_duration absl (Now absl) limit
            in m\<lparr>deadline_millis := ToUnixMillis absl deadline\<rparr>))"

definition UnotifyMonitor_SetWallTimeLimit ::
  "('d, 't) absl_time \<Rightarrow> 'd \<Rightarrow> monitor \<Rightarrow> monitor" where
  "UnotifyMonitor_SetWallTimeLimit absl limit m =
     (if limit = ZeroDuration absl then m\<lparr>deadline_millis := 0\<rparr>
      else (let deadline = plus_duration absl (Now absl) limit
            in NotifyMonitor (m\<lparr>deadline_millis := ToUnixMillis absl deadline\<rparr>)))"

text \<open>The virtual call \<open>MonitorBase::SetWallTimeLimit\<close>, dispatched on the variant.\<close>

datatype monitor_kind = PtraceMonitor | UnotifyMonitor

fun SetWallTimeLimit ::
  "('d, 't) absl_time \<Rightarrow> monitor_kind \<Rightarrow> 'd \<Rightarrow> monitor \<Rightarrow> monitor" where
  "SetWallTimeLimit absl PtraceMonitor limit m = PtraceMonitor_SetWallTimeLimit absl limit m"
| "SetWallTimeLimit absl UnotifyMonitor limit m = UnotifyMonitor_SetWallTimeLimit absl limit m"

text \<open>
  One library for the concrete cases below: durations and times are whole nanoseconds
  (times since the Unix epoch), the clock reads \<open>now\<close>, and the conversion to
  milliseconds rounds towards minus infinity and stops at the bounds of \<open>int64_t\<close>.
\<close>

definition nanosecond_clock :: "int \<Rightarrow> (int, int) absl_time" where
  "nanosecond_clock now =
     \<lparr>ZeroDuration = 0, Now = now, plus_duration = (\<lambda>t d. t + d),
      ToUnixMillis = (\<lambda>t. word_of_int (max (- (2 ^ 63)) (min (2 ^ 63 - 1) (t div 1000000))))\<rparr>"

section \<open>Comms: move assignment (sandbox2/comms.h)\<close>

text \<open>
  \<open>Comms\<close> objects live at addresses; \<open>a = std::move(b)\<close> compares the two addresses,
  so the model keeps a store from addresses to objects, together with the set of file
  descriptors that are open in the process. \<open>raw_comms\<close> is the \<open>std::variant\<close> of the
  source: a \<open>unique_ptr<RawComms>\<close> (null, or an implementation that owns a descriptor)
  or a \<open>RawCommsFdImpl\<close> holding an \<open>FDCloser\<close>.
\<close>

datatype State = kUnconnected | kConnected | kTerminated

datatype raw_comms = RawCommsPtr "int option" | RawCommsFdImpl int

record Comms =
  name :: string
  abstract_uds :: bool
  raw_comms :: raw_comms
  listening_comms :: "int option"   \<comment> \<open>the bind descriptor of an owned \<open>ListeningComms\<close>\<close>
  state :: State

record comms_store =
  object_at :: "nat \<Rightarrow> Comms"
  open_fds :: "int set"

definition IsConnected :: "Comms \<Rightarrow> bool" where
  "IsConnected c = (state c = kConnected)"

definition IsTerminated :: "Comms \<Rightarrow> bool" where
  "IsTerminated c = (state c = kTerminated)"

text \<open>The descriptors an object owns: the connection and the listening socket.\<close>

fun connection_fd :: "raw_comms \<Rightarrow> int option" where
  "connection_fd (RawCommsPtr p) = p"
| "connection_fd (RawCommsFdImpl fd) = (if fd < 0 then None else Some fd)"

definition owned_fds :: "Comms \<Rightarrow> int set" where
  "owned_fds c = set_option (connection_fd (raw_comms c)) \<union> set_option (listening_comms c)"

text \<open>
  Modelled from the spec: the body of \<open>Comms::Terminate\<close> (comms.cc) is not in src.
  Its declaration says: ``Terminates all underlying file descriptors, and sets the
  status of the Comms object to TERMINATED''; the spec, section 4.1:
  ``\<open>Terminate()\<close> closes the FD and moves to terminal.''
\<close>

definition Terminate :: "nat \<Rightarrow> comms_store \<Rightarrow> comms_store" where
  "Terminate this st =
     (let c = object_at st this
      in st\<lparr>object_at := (object_at st)
                (this := c\<lparr>raw_comms := RawCommsPtr None, listening_comms := None,
                           state := kTerminated\<rparr>),
             open_fds := open_fds st - owned_fds c\<rparr>)"

text \<open>\<open>Comms::Swap\<close>, field by field as the source does, and the friend \<open>swap\<close>.\<close>

definition Swap :: "nat \<Rightarrow> nat \<Rightarrow> comms_store \<Rightarrow> comms_store" where
  "Swap this other st =
     (if this = other then st
      else
        (let x = object_at st this; y = object_at st other;
             x' = x\<lparr>name := name y, abstract_uds := abstract_uds y,
                     raw_comms := raw_comms y, state := state y,
                     listening_comms := listening_comms y\<rparr>;
             y' = y\<lparr>name := name x, abstract_uds := abstract_uds x,
                     raw_comms := raw_comms x, state := state x,
                     listening_comms := listening_comms x\<rparr>
         in st\<lparr>object_at := (object_at st)(this := x', other := y')\<rparr>))"

definition swap_comms :: "nat \<Rightarrow> nat \<Rightarrow> comms_store \<Rightarrow> comms_store" where
  "swap_comms x y st = Swap x y st"

text \<open>\<open>Comms& operator=(Comms&& other)\<close>.\<close>

definition move_assign :: "nat \<Rightarrow> nat \<Rightarrow> comms_store \<Rightarrow> comms_store" where
  "move_assign this other st =
     (if this \<noteq> other then Terminate other (swap_comms this other st) else st)"

text \<open>
  Modelled from the spec: the bodies of the send and receive operations (comms.cc) are
  not in src. Section 4.1: ``After \<open>Terminate\<close>, every operation fails.'' An operation
  on a channel that is not terminated performs its input or output on the connection
  descriptor, with the outcome \<open>io\<close> the kernel gives; without a descriptor it fails.
\<close>

definition comms_operation :: "(int \<Rightarrow> bool) \<Rightarrow> Comms \<Rightarrow> bool" where
  "comms_operation io c =
     (if state c = kTerminated then False
      else (case connection_fd (raw_comms c) of None \<Rightarrow> False | Some fd \<Rightarrow> io fd))"

text \<open>
  A store with two connected channels, at addresses 1 and 2, owning the descriptors 7
  and 9; every other address holds a default-constructed object.
\<close>

definition two_channels :: comms_store where
  "two_channels =
     \<lparr>object_at = (\<lambda>p. \<lparr>name = [], abstract_uds = True, raw_comms = RawCommsPtr None,
                          listening_comms = None, state = kUnconnected\<rparr>)
         (1 := \<lparr>name = ''a'', abstract_uds = True, raw_comms = RawCommsFdImpl 7,
                listening_comms = None, state = kConnected\<rparr>,
          2 := \<lparr>name = ''b'', abstract_uds = True, raw_comms = RawCommsFdImpl 9,
                listening_comms = None, state = kConnected\<rparr>),
      open_fds = {7, 9}\<rparr>"

section \<open>Raw logging (util/raw\_logging.cc)\<close>

text \<open>
  \<open>RawLogVA\<close> formats into \<open>char buffer[kLogBufSize]\<close> on its stack through a cursor
  (\<open>buf\<close>, here the offset into the array) and the number of bytes left (\<open>size\<close>).
  Memory outside the array is not part of the model: a write that would leave the array
  makes the result \<open>None\<close>, and so does a \<open>strlen\<close> that finds no terminator.
\<close>

definition NUL :: char where "NUL = CHR 0x00"

definition kTruncated :: string where
  "kTruncated = '' ... (message truncated)'' @ [CHR 0x0A]"

text \<open>\<open>sizeof(kTruncated)\<close> counts the terminator.\<close>

definition sizeof_kTruncated :: nat where
  "sizeof_kTruncated = length kTruncated + 1"

definition INT_MAX :: int where "INT_MAX = 2147483647"

text \<open>The conversion of an \<open>int\<close> to \<open>size_t\<close> (64 bits).\<close>

definition to_size_t :: "int \<Rightarrow> nat" where
  "to_size_t i = nat (i mod 2 ^ 64)"

text \<open>
  What a call of \<open>vsnprintf\<close> produces is decided by the C library from the format and
  the arguments: either the complete expansion, or an error after some bytes were
  stored. \<open>vsnprintf mem at sz out\<close> stores at offset \<open>at\<close> at most \<open>sz\<close> bytes (the
  expansion cut to \<open>sz - 1\<close> characters and a terminator; nothing when \<open>sz = 0\<close>) and
  returns the length of the complete expansion, or a negative value on error.
\<close>

datatype vs_out = Formatted string | FormatError string

definition vs_written :: "nat \<Rightarrow> vs_out \<Rightarrow> string" where
  "vs_written sz out =
     (case out of
        Formatted str \<Rightarrow> (if sz = 0 then [] else take (sz - 1) str @ [NUL])
      | FormatError w \<Rightarrow> take sz w)"

definition vs_return :: "vs_out \<Rightarrow> int" where
  "vs_return out =
     (case out of
        Formatted str \<Rightarrow> (if int (length str) \<le> INT_MAX then int (length str) else -1)
      | FormatError w \<Rightarrow> -1)"

definition store_at :: "char list \<Rightarrow> nat \<Rightarrow> string \<Rightarrow> char list option" where
  "store_at mem at w =
     (if at + length w \<le> length mem
      then Some (take at mem @ w @ drop (at + length w) mem)
      else None)"

definition vsnprintf :: "char list \<Rightarrow> nat \<Rightarrow> nat \<Rightarrow> vs_out \<Rightarrow> (char list \<times> int) option" where
  "vsnprintf mem at sz out =
     (case store_at mem at (vs_written sz out) of
        None \<Rightarrow> None
      | Some mem' \<Rightarrow> Some (mem', vs_return out))"

record cursor =
  buffer :: "char list"
  buf :: nat
  size_left :: int     \<comment> \<open>\<open>*size\<close>\<close>

definition VADoRawLog :: "cursor \<Rightarrow> vs_out \<Rightarrow> (cursor \<times> bool) option" where
  "VADoRawLog c out =
     (case vsnprintf (buffer c) (buf c) (to_size_t (size_left c)) out of
        None \<Rightarrow> None
      | Some (mem', n) \<Rightarrow>
          (let truncated = (n < 0 \<or> n > size_left c);
               n' = (if truncated
                     then (if to_size_t (size_left c) > sizeof_kTruncated
                           then size_left c - int sizeof_kTruncated
                           else 0)
                     else n)
           in Some (c\<lparr>buffer := mem', buf := buf c + nat n', size_left := size_left c - n'\<rparr>,
                    \<not> truncated)))"

definition DoRawLog :: "cursor \<Rightarrow> vs_out \<Rightarrow> (cursor \<times> bool) option" where
  "DoRawLog c out =
     (case vsnprintf (buffer c) (buf c) (to_size_t (size_left c)) out of
        None \<Rightarrow> None
      | Some (mem', n) \<Rightarrow>
          if n < 0 \<or> n > size_left c then Some (c\<lparr>buffer := mem'\<rparr>, False)
          else Some (c\<lparr>buffer := mem', buf := buf c + nat n, size_left := size_left c - n\<rparr>,
                     True))"

text \<open>The expansion of \<open>"[%s : %d] RAW: "\<close> for a file name and a line number.\<close>

fun decimal :: "nat \<Rightarrow> string" where
  "decimal n =
     (if n < 10 then [''0123456789'' ! n]
      else decimal (n div 10) @ [''0123456789'' ! (n mod 10)])"

definition percent_d :: "int \<Rightarrow> string" where
  "percent_d i = (if i < 0 then CHR ''-'' # decimal (nat (- i)) else decimal (nat i))"

definition raw_prefix :: "string \<Rightarrow> int \<Rightarrow> string" where
  "raw_prefix file line = ''['' @ file @ '' : '' @ percent_d line @ ''] RAW: ''"

definition strlen :: "char list \<Rightarrow> nat option" where
  "strlen mem =
     (if NUL \<in> set mem then Some (length (takeWhile (\<lambda>ch. ch \<noteq> NUL) mem)) else None)"

datatype LogSeverity = kInfo | kWarning | kError | kFatal

record raw_log_result =
  stderr_bytes :: string     \<comment> \<open>what \<open>SafeWriteToStderr\<close> hands to \<open>write(2)\<close>\<close>
  final_buffer :: "char list"
  aborted :: bool

text \<open>
  \<open>RawLogVA\<close> (the build that is not for Android). \<open>stack\<close> is the content of the
  array when the function is entered (it is not initialised), so \<open>kLogBufSize\<close> is its
  length; \<open>msg\<close> is what formatting the caller's format and arguments gives.
\<close>

definition RawLogVA ::
  "char list \<Rightarrow> LogSeverity \<Rightarrow> string \<Rightarrow> int \<Rightarrow> vs_out \<Rightarrow> raw_log_result option" where
  "RawLogVA stack severity file line msg =
     (case DoRawLog \<lparr>buffer = stack, buf = 0, size_left = int (length stack)\<rparr>
             (Formatted (raw_prefix file line)) of
        None \<Rightarrow> None
      | Some (c1, ok1) \<Rightarrow>
     (case VADoRawLog c1 msg of
        None \<Rightarrow> None
      | Some (c2, no_chop) \<Rightarrow>
     (case DoRawLog c2 (Formatted (if no_chop then [CHR 0x0A] else kTruncated)) of
        None \<Rightarrow> None
      | Some (c3, ok3) \<Rightarrow>
     (case strlen (buffer c3) of
        None \<Rightarrow> None
      | Some len \<Rightarrow>
          Some \<lparr>stderr_bytes = take len (buffer c3), final_buffer = buffer c3,
                aborted = (severity = kFatal)\<rparr>))))"

text \<open>
  The cursor stays inside an array of \<open>N\<close> bytes: the bytes left are not negative and
  end where the array ends.
\<close>

definition cursor_ok :: "nat \<Rightarrow> cursor \<Rightarrow> bool" where
  "cursor_ok N c =
     (length (buffer c) = N \<and> 0 \<le> size_left c \<and> int (buf c) + size_left c = int N)"

section \<open>Policy builder: what its tests and the specification fix\<close>

text \<open>
  The builder itself (policybuilder.cc) and the helpers it calls (util/path.cc,
  util/bpf\_helper.h) are not among the sources; its tests (policybuilder\_test.cc) are.
  The definitions of this section are therefore written from the specification and
  checked against the assertions of the tests.
\<close>

datatype status = InvalidArgument | FailedPrecondition

subsection \<open>Path validation\<close>

text \<open>The components of a path, split at every slash (empty components are kept).\<close>

fun split_slash :: "string \<Rightarrow> string list" where
  "split_slash [] = [[]]"
| "split_slash (c # cs) =
     (if c = CHR ''/'' then [] # split_slash cs
      else (case split_slash cs of [] \<Rightarrow> [[c]] | x # xs \<Rightarrow> (c # x) # xs))"

fun join_slash :: "string list \<Rightarrow> string" where
  "join_slash [] = []"
| "join_slash [x] = x"
| "join_slash (x # y # ys) = x @ CHR ''/'' # join_slash (y # ys)"

definition IsAbsolutePath :: "string \<Rightarrow> bool" where
  "IsAbsolutePath path = (case path of [] \<Rightarrow> False | c # cs \<Rightarrow> c = CHR ''/'')"

text \<open>
  Modelled from the spec: the path normaliser behind the validation (util/path.cc) is
  not in src. Section 3 asks for paths that are ``absolute, normalized, no
  \<open>.\<close>/\<open>..\<close>/double-slash/trailing-slash components''. Normalising walks the
  non-empty components from left to right: \<open>.\<close> is skipped, \<open>..\<close> removes the
  component before it (at the root there is nothing to remove), anything else is kept;
  the kept components are joined by single slashes.
\<close>

fun clean_parts :: "string list \<Rightarrow> string list \<times> nat \<Rightarrow> string list \<times> nat" where
  "clean_parts [] acc = acc"
| "clean_parts (part # rest) (parts, dotdot_num) =
     (if part = ''..''
      then (if parts = [] then clean_parts rest (parts, Suc dotdot_num)
            else clean_parts rest (butlast parts, dotdot_num))
      else if part \<noteq> ''.'' then clean_parts rest (parts @ [part], dotdot_num)
      else clean_parts rest (parts, dotdot_num))"

definition CleanPath :: "string \<Rightarrow> string" where
  "CleanPath unclean_path =
     (let (parts, dotdot_num) =
            clean_parts (filter (\<lambda>part. part \<noteq> []) (split_slash unclean_path)) ([], 0)
      in if IsAbsolutePath unclean_path
         then (if parts = [] then ''/'' else join_slash ([] # parts))
         else (if replicate dotdot_num ''..'' @ parts = [] then ''.''
               else join_slash (replicate dotdot_num ''..'' @ parts)))"

text \<open>
  Modelled from the spec: \<open>PolicyBuilder::ValidateAbsolutePath\<close> (policybuilder.cc) is
  not in src. Section 4.2 (c): ``An absolute path that fails canonical-form validation
  --- rejected''; section 8: ``Path validation rejects any non-canonical absolute path
  and accepts \<open>/\<close> and any canonical path.'' The test expects the status
  \<open>kInvalidArgument\<close> for a rejected path and the path itself for an accepted one.
  A path is in canonical form when normalising it changes nothing.
\<close>

definition ValidateAbsolutePath :: "string \<Rightarrow> status + string" where
  "ValidateAbsolutePath path =
     (if \<not> IsAbsolutePath path then Inl InvalidArgument
      else if CleanPath path \<noteq> path then Inl InvalidArgument
      else Inr (CleanPath path))"

text \<open>
  The words of the claim, as predicates on the text of a path: a double slash
  somewhere, a trailing slash (on a path other than the root), a component \<open>.\<close> or
  \<open>..\<close>. A canonical absolute path starts with a slash and has none of them.
\<close>

fun double_slash :: "string \<Rightarrow> bool" where
  "double_slash (a # b # cs) = ((a = CHR ''/'' \<and> b = CHR ''/'') \<or> double_slash (b # cs))"
| "double_slash cs = False"

definition trailing_slash :: "string \<Rightarrow> bool" where
  "trailing_slash path = (path \<noteq> ''/'' \<and> path \<noteq> [] \<and> last path = CHR ''/'')"

definition canonical_absolute :: "string \<Rightarrow> bool" where
  "canonical_absolute path =
     (IsAbsolutePath path \<and> \<not> double_slash path \<and> \<not> trailing_slash path
      \<and> ''.'' \<notin> set (split_slash path) \<and> ''..'' \<notin> set (split_slash path))"

definition ordinary :: "string \<Rightarrow> bool" where
  "ordinary part = (part \<noteq> [] \<and> part \<noteq> ''.'' \<and> part \<noteq> ''..'')"

subsection \<open>Seccomp filter instructions\<close>

text \<open>
  \<open>struct sock_filter\<close> of the kernel, and the macros of bpf\_helper.h the tests use
  (\<open>BPF_STMT\<close>, \<open>BPF_JUMP\<close>, \<open>ALLOW\<close>, \<open>ERRNO\<close>, \<open>SYSCALL\<close>), with the
  kernel's values for the constants.
\<close>

record sock_filter =
  code :: "16 word"
  jt :: "8 word"
  jf :: "8 word"
  k :: "32 word"

definition BPF_JMP :: "16 word" where "BPF_JMP = 0x05"
definition BPF_RET :: "16 word" where "BPF_RET = 0x06"
definition BPF_K :: "16 word" where "BPF_K = 0x00"
definition BPF_JA :: "16 word" where "BPF_JA = 0x00"
definition BPF_JEQ :: "16 word" where "BPF_JEQ = 0x10"

definition BPF_CLASS :: "16 word \<Rightarrow> 16 word" where "BPF_CLASS c = c AND 0x07"
definition BPF_OP :: "16 word \<Rightarrow> 16 word" where "BPF_OP c = c AND 0xf0"

definition SECCOMP_RET_ALLOW :: "32 word" where "SECCOMP_RET_ALLOW = 0x7fff0000"
definition SECCOMP_RET_ERRNO :: "32 word" where "SECCOMP_RET_ERRNO = 0x00050000"
definition SECCOMP_RET_DATA :: "32 word" where "SECCOMP_RET_DATA = 0x0000ffff"

definition BPF_STMT :: "16 word \<Rightarrow> 32 word \<Rightarrow> sock_filter" where
  "BPF_STMT c v = \<lparr>code = c, jt = 0, jf = 0, k = v\<rparr>"

definition BPF_JUMP :: "16 word \<Rightarrow> 32 word \<Rightarrow> 8 word \<Rightarrow> 8 word \<Rightarrow> sock_filter" where
  "BPF_JUMP c v t f = \<lparr>code = c, jt = t, jf = f, k = v\<rparr>"

definition ALLOW :: sock_filter where
  "ALLOW = BPF_STMT (BPF_RET + BPF_K) SECCOMP_RET_ALLOW"

definition ERRNO :: "32 word \<Rightarrow> sock_filter" where
  "ERRNO x = BPF_STMT (BPF_RET + BPF_K) (SECCOMP_RET_ERRNO + (x AND SECCOMP_RET_DATA))"

definition SYSCALL :: "32 word \<Rightarrow> sock_filter \<Rightarrow> sock_filter list" where
  "SYSCALL num action = [BPF_JUMP (BPF_JMP + BPF_JEQ + BPF_K) num 0 1, action]"

text \<open>
  What the kernel does with the rules of a user policy: the syscall number is in the
  accumulator \<open>A\<close> when the first rule starts; a return ends the run with its action
  (\<open>Returned\<close>), jumps only go forward, and a run that leaves the rules at position
  \<open>pc\<close> (\<open>PassedOn pc\<close>) goes on to whatever follows them. Instructions the rules of
  this section never use end the run (\<open>Unsupported\<close>).
\<close>

datatype outcome = Returned "32 word" | PassedOn nat | Unsupported

function bpf_run :: "sock_filter list \<Rightarrow> 32 word \<Rightarrow> nat \<Rightarrow> outcome" where
  "bpf_run prog A pc =
     (if length prog \<le> pc then PassedOn pc
      else
        (let ins = prog ! pc in
         if code ins = BPF_RET + BPF_K then Returned (k ins)
         else if code ins = BPF_JMP + BPF_JA then bpf_run prog A (pc + 1 + unat (k ins))
         else if code ins = BPF_JMP + BPF_JEQ + BPF_K
           then bpf_run prog A (pc + 1 + unat (if A = k ins then jt ins else jf ins))
         else Unsupported))"
  by pat_completeness auto
termination
  by (relation "measure (\<lambda>(prog, A, pc). length prog - pc)") auto


subsection \<open>The builder\<close>

text \<open>
  Modelled from the spec: the members of \<open>PolicyBuilder\<close> (policybuilder.cc) are not in
  src. The builder keeps the user policy (\<open>user_policy_\<close>, whose size the test peer
  reads), the set of syscalls that already have a simple rule, the first error a
  registration recorded, and whether a policy has been built. Section 4.2: ``User
  rules, in insertion order''; section 8: ``A policy can be built at most once''.
\<close>

record PolicyBuilder =
  user_policy :: "sock_filter list"
  handled_syscalls :: "32 word set"
  last_status :: "status option"    \<comment> \<open>\<open>None\<close>: no error recorded\<close>
  already_built :: bool

definition new_PolicyBuilder :: PolicyBuilder where
  "new_PolicyBuilder =
     \<lparr>user_policy = [], handled_syscalls = {}, last_status = None, already_built = False\<rparr>"

text \<open>\<open>PolicyBuilderPeer::policy_size\<close> of the test: \<open>builder_->user_policy_.size()\<close>.\<close>

definition policy_size :: "PolicyBuilder \<Rightarrow> nat" where
  "policy_size builder = length (user_policy builder)"

text \<open>
  Modelled from the spec: recording an error (policybuilder.cc) is not in src. The
  builder's calls return the builder, so that they can be chained, and the error of a
  call is reported by \<open>TryBuild\<close> (section 4.2, ``Validation (refuse to build)''); the
  first error is the one kept.
\<close>

definition SetError :: "status \<Rightarrow> PolicyBuilder \<Rightarrow> PolicyBuilder" where
  "SetError st b = (if last_status b = None then b\<lparr>last_status := Some st\<rparr> else b)"

text \<open>
  Modelled from the spec: \<open>PolicyBuilder::AllowSyscall\<close> (policybuilder.cc) is not in
  src. Section 3: ``Rules are ordered; first match wins'', ``Duplicate
  \<open>AllowSyscall(n)\<close> calls collapse to one rule''; section 4.2: ``\<open>AllowSyscall(n)\<close>
  may be called repeatedly without growing the program''. The test \<open>Testpolicy_size\<close>
  has the size grow at the first \<open>AllowSyscall(n)\<close> and stay at every later one.
\<close>

definition AllowSyscall :: "32 word \<Rightarrow> PolicyBuilder \<Rightarrow> PolicyBuilder" where
  "AllowSyscall num b =
     (if num \<notin> handled_syscalls b
      then b\<lparr>user_policy := user_policy b @ SYSCALL num ALLOW,
             handled_syscalls := insert num (handled_syscalls b)\<rparr>
      else b)"

text \<open>
  Modelled from the spec: \<open>PolicyBuilder::BlockSyscallWithErrno\<close> (policybuilder.cc) is
  not in src. The test \<open>Testpolicy_size\<close> fixes two things: after \<open>AllowSyscall(n)\<close>,
  \<open>BlockSyscallWithErrno(n, 1)\<close> leaves the size of \<open>user_policy_\<close> as it was, and on a
  syscall not seen before it makes the size larger. So the call is dropped for a
  syscall that already has a simple rule. Neither the specification nor a test says
  whether the call itself marks its syscall as having a simple rule: \<open>records\<close> stands
  for that choice, and the properties below hold for both values.
\<close>

definition BlockSyscallWithErrno ::
  "bool \<Rightarrow> 32 word \<Rightarrow> 32 word \<Rightarrow> PolicyBuilder \<Rightarrow> PolicyBuilder" where
  "BlockSyscallWithErrno records num error b =
     (if num \<notin> handled_syscalls b
      then b\<lparr>user_policy := user_policy b @ SYSCALL num (ERRNO error),
             handled_syscalls :=
               (if records then insert num (handled_syscalls b) else handled_syscalls b)\<rparr>
      else b)"

text \<open>
  Modelled from the spec: the check of the jumps of an embedded policy
  (policybuilder.cc) is not in src. Section 3: ``All jump targets are within program
  bounds''; section 4.2 (a): ``A rule whose embedded BPF contains an out-of-bounds jump
  --- rejected''. An instruction with \<open>max_jump\<close> instructions after it may skip at most
  that many; the test \<open>AddPolicyOnSyscallJumpOutOfBounds\<close> has the one-instruction
  policy \<open>BPF_JUMP(BPF_JMP | BPF_JEQ | BPF_K, 1, 2, 0)\<close> rejected.
\<close>

definition CheckBpfBounds :: "sock_filter \<Rightarrow> nat \<Rightarrow> bool" where
  "CheckBpfBounds flt max_jump =
     (if BPF_CLASS (code flt) = BPF_JMP
      then (if BPF_OP (code flt) = BPF_JA then unat (k flt) \<le> max_jump
            else unat (jt flt) \<le> max_jump \<and> unat (jf flt) \<le> max_jump)
      else True)"

fun policy_in_bounds :: "sock_filter list \<Rightarrow> bool" where
  "policy_in_bounds [] = True"
| "policy_in_bounds (flt # rest) =
     (CheckBpfBounds flt (length rest) \<and> policy_in_bounds rest)"

text \<open>
  Modelled from the spec: \<open>PolicyBuilder::AddPolicyOnSyscall\<close> (policybuilder.cc) is not
  in src. Section 4.2: ``Each policy rule is emitted as a small BPF fragment whose
  entry loads \<open>nr\<close> [...] and whose exit is either a terminal action or a forward jump
  to the next rule'', ``BPF jumps are 8-bit; long jumps require chained trampolines
  [...] when a span exceeds 255 instructions'', ``\<open>AddPolicyOnSyscall\<close> always
  appends''. The fragment compares the syscall number and skips the embedded policy
  when it differs; for a policy of one instruction it is \<open>SYSCALL(num, action)\<close>. A
  policy with a jump out of bounds is rejected: the error is recorded and nothing is
  appended.
\<close>

definition on_syscall :: "32 word \<Rightarrow> sock_filter list \<Rightarrow> sock_filter list" where
  "on_syscall num policy =
     (if length policy \<le> 255
      then BPF_JUMP (BPF_JMP + BPF_JEQ + BPF_K) num 0 (of_nat (length policy)) # policy
      else BPF_JUMP (BPF_JMP + BPF_JEQ + BPF_K) num 1 0
           # BPF_STMT (BPF_JMP + BPF_JA) (of_nat (length policy)) # policy)"

definition AddPolicyOnSyscall :: "32 word \<Rightarrow> sock_filter list \<Rightarrow> PolicyBuilder \<Rightarrow> PolicyBuilder" where
  "AddPolicyOnSyscall num policy b =
     (if policy_in_bounds policy
      then b\<lparr>user_policy := user_policy b @ on_syscall num policy\<rparr>
      else SetError InvalidArgument b)"

text \<open>Syscall and error numbers of x86-64 that the tests name.\<close>

definition NR_munmap :: "32 word" where "NR_munmap = 11"
definition NR_openat :: "32 word" where "NR_openat = 257"
definition NR_chroot :: "32 word" where "NR_chroot = 161"
definition NR_umask :: "32 word" where "NR_umask = 95"
definition NR_fchmod :: "32 word" where "NR_fchmod = 91"
definition NR_write :: "32 word" where "NR_write = 1"
definition NR_ptrace :: "32 word" where "NR_ptrace = 101"

text \<open>
  Modelled from the spec: \<open>PolicyBuilder::TryBuild\<close> (policybuilder.cc) is not in src.
  Section 4.2, ``Validation (refuse to build)'': an error that a registration recorded
  is what the build returns; section 8: ``A policy can be built at most once; a second
  attempt fails with a precondition error'' (the test \<open>TestCanOnlyBuildOnce\<close> expects
  \<open>kFailedPrecondition\<close>). The test \<open>CanBypassPtrace\<close> expects a build that is not OK
  for a user policy that allows \<open>ptrace\<close>; it does not fix the status code, which is
  \<open>NotOk\<close> here. A build that succeeds hands out the user policy and marks the builder
  as built.
\<close>

datatype Policy = Policy (policy_user_policy: "sock_filter list")

datatype build_result = Built Policy | Failed status | NotOk

definition TryBuild :: "PolicyBuilder \<Rightarrow> build_result \<times> PolicyBuilder" where
  "TryBuild b =
     (case last_status b of
        Some st \<Rightarrow> (Failed st, b)
      | None \<Rightarrow>
          if already_built b then (Failed FailedPrecondition, b)
          else if bpf_run (user_policy b) NR_ptrace 0 = Returned SECCOMP_RET_ALLOW
            then (NotOk, b)
          else (Built (Policy (user_policy b)), b\<lparr>already_built := True\<rparr>))"

text \<open>
  The rule shapes of the builder that name one syscall, and their registration.
  \<open>rule_action\<close> is the instruction that decides the syscall, for the rules that have
  one (\<open>one_action\<close>): the simple rules, and \<open>AddPolicyOnSyscall(num, {action})\<close> with a
  return instruction as \<open>action\<close>, the shape the tests register. \<open>dropped_after\<close> says
  for which pairs on one syscall the second registration adds nothing.
\<close>

datatype rule = Allow | Block "32 word" | OnSyscall "sock_filter list"





section \<open>Properties of the network proxy server\<close>

lemma Run_stopped:
  "fatal_error s \<or> violation_occurred s \<Longrightarrow> Run H es s = (s, [], es)"
  by (cases es) auto

text \<open>
  C7. A received connect request whose buffer is neither a \<open>sockaddr_in\<close> of exactly
  16 bytes with family \<open>AF_INET\<close> nor a \<open>sockaddr_in6\<close> of exactly 28 bytes with family
  \<open>AF_INET6\<close> is answered with \<open>SendInt32(EINVAL)\<close> and nothing else: no \<open>socket()\<close>,
  no \<open>connect()\<close>, no violation callback, and the violation flag and message are left
  as they were. The only state change possible is \<open>fatal_error\<close>, set when the send of
  the reply itself fails.
\<close>

theorem C7_malformed_request_gets_EINVAL:
  assumes "recv_bytes e = Some addr"
    and "\<not> ((length addr = sizeof_sockaddr_in \<and> sa_family addr = AF_INET)
            \<or> (length addr = sizeof_sockaddr_in6 \<and> sa_family addr = AF_INET6))"
  shows "ProcessConnectRequest H e s =
           (s\<lparr>fatal_error := fatal_error s \<or> \<not> send_int32_ok e\<rparr>, [SendInt32 EINVAL])
       \<and> violation_occurred (fst (ProcessConnectRequest H e s)) = violation_occurred s
       \<and> violation_msg (fst (ProcessConnectRequest H e s)) = violation_msg s
       \<and> snd (ProcessConnectRequest H e s) = [SendInt32 22]"
  using assms
  by (auto simp: ProcessConnectRequest_def supported_sockaddr_def SendError_def EINVAL_def)

theorem C7_malformed_request_gets_EINVAL_witness:
  "recv_bytes \<lparr>recv_bytes = Some [2, 0, 0, 80, 127, 0, 0, 1], send_int32_ok = True,
      socket_ret = 5, socket_errno = 0, connect_ret = 0, connect_errno = 0,
      send_fd_ok = True\<rparr> = Some [2, 0, 0, 80, 127, 0, 0, 1]
   \<and> length [2, 0, 0, 80, 127, 0, 0, 1 :: byte] = 8
   \<and> sa_family [2, 0, 0, 80, 127, 0, 0, 1] = AF_INET
   \<and> ProcessConnectRequest \<lparr>IsHostAllowed = (\<lambda>a. True), AddrToString = (\<lambda>a. Inr ''x'')\<rparr>
       \<lparr>recv_bytes = Some [2, 0, 0, 80, 127, 0, 0, 1], send_int32_ok = True, socket_ret = 5,
        socket_errno = 0, connect_ret = 0, connect_errno = 0, send_fd_ok = True\<rparr>
       NetworkProxyServer
     = (NetworkProxyServer, [SendInt32 22])"
  using C7_malformed_request_gets_EINVAL
    [of "\<lparr>recv_bytes = Some [2, 0, 0, 80, 127, 0, 0, 1], send_int32_ok = True, socket_ret = 5,
      socket_errno = 0, connect_ret = 0, connect_errno = 0, send_fd_ok = True\<rparr>"
      "[2, 0, 0, 80, 127, 0, 0, 1]"
      "\<lparr>IsHostAllowed = (\<lambda>a. True), AddrToString = (\<lambda>a. Inr ''x'')\<rparr>"
      NetworkProxyServer]
  by (simp add: sizeof_sockaddr_in_def sizeof_sockaddr_in6_def NetworkProxyServer_def
      EINVAL_def sa_family_def AF_INET_def)

text \<open>
  C8. When a request carries a well-formed address (a \<open>sockaddr_in\<close> or
  \<open>sockaddr_in6\<close> of the right size and family) that the allowlist refuses, the server
  stores the printed address (or the message of the status when printing fails) in
  \<open>violation_msg\<close>, sets \<open>violation_occurred\<close> and calls the violation callback, and
  that is all it does for the request: the actions of the whole remaining run are the
  single callback, none of them a reply (\<open>SendInt32\<close> or \<open>SendFD\<close>), and every
  request that was still to come is left unread.
\<close>

theorem C8_violation_ends_the_loop_without_reply:
  assumes "\<not> fatal_error s" and "\<not> violation_occurred s"
    and "recv_bytes e = Some addr"
    and "(length addr = sizeof_sockaddr_in \<and> sa_family addr = AF_INET)
         \<or> (length addr = sizeof_sockaddr_in6 \<and> sa_family addr = AF_INET6)"
    and "\<not> IsHostAllowed H addr"
  shows "Run H (e # es) s =
           (s\<lparr>violation_msg := (case AddrToString H addr of Inr str \<Rightarrow> str | Inl m \<Rightarrow> m),
              violation_occurred := True\<rparr>,
            [NotifyViolationFn], es)
       \<and> filter is_reply (fst (snd (Run H (e # es) s))) = []
       \<and> snd (snd (Run H (e # es) s)) = es
       \<and> ProcessConnectRequest H e s =
           (s\<lparr>violation_msg := (case AddrToString H addr of Inr str \<Rightarrow> str | Inl m \<Rightarrow> m),
              violation_occurred := True\<rparr>,
            [NotifyViolationFn])"
proof -
  let ?s' = "s\<lparr>violation_msg := (case AddrToString H addr of Inr str \<Rightarrow> str | Inl m \<Rightarrow> m),
              violation_occurred := True\<rparr>"
  have sup: "supported_sockaddr addr"
    using assms(4) by (auto simp: supported_sockaddr_def)
  have step: "ProcessConnectRequest H e s = (?s', [NotifyViolationFn])"
    using assms(3,5) sup by (simp add: ProcessConnectRequest_def NotifyViolation_def)
  have stop: "Run H es ?s' = (?s', [], es)"
    by (rule Run_stopped) simp
  have run: "Run H (e # es) s = (?s', [NotifyViolationFn], es)"
    using assms(1,2) step stop by simp
  show ?thesis
    using run step by (simp add: is_reply_def)
qed

theorem C8_violation_ends_the_loop_without_reply_witness:
  "\<not> fatal_error NetworkProxyServer \<and> \<not> violation_occurred NetworkProxyServer
   \<and> length [2, 0, 0, 53, 8, 8, 8, 8, 0, 0, 0, 0, 0, 0, 0, 0 :: byte] = sizeof_sockaddr_in
   \<and> sa_family [2, 0, 0, 53, 8, 8, 8, 8, 0, 0, 0, 0, 0, 0, 0, 0] = AF_INET
   \<and> Run \<lparr>IsHostAllowed = (\<lambda>a. False), AddrToString = (\<lambda>a. Inr ''8.8.8.8'')\<rparr>
     [\<lparr>recv_bytes = Some [2, 0, 0, 53, 8, 8, 8, 8, 0, 0, 0, 0, 0, 0, 0, 0], send_int32_ok = True,
        socket_ret = 5, socket_errno = 0, connect_ret = 0, connect_errno = 0, send_fd_ok = True\<rparr>,
      \<lparr>recv_bytes = Some [2, 0, 0, 80, 127, 0, 0, 1, 0, 0, 0, 0, 0, 0, 0, 0], send_int32_ok = True,
        socket_ret = 6, socket_errno = 0, connect_ret = 0, connect_errno = 0, send_fd_ok = True\<rparr>]
     NetworkProxyServer
   = (\<lparr>violation_occurred = True, fatal_error = False, violation_msg = ''8.8.8.8''\<rparr>,
      [NotifyViolationFn],
      [\<lparr>recv_bytes = Some [2, 0, 0, 80, 127, 0, 0, 1, 0, 0, 0, 0, 0, 0, 0, 0], send_int32_ok = True,
        socket_ret = 6, socket_errno = 0, connect_ret = 0, connect_errno = 0, send_fd_ok = True\<rparr>])"
  using C8_violation_ends_the_loop_without_reply
    [of NetworkProxyServer
      "\<lparr>recv_bytes = Some [2, 0, 0, 53, 8, 8, 8, 8, 0, 0, 0, 0, 0, 0, 0, 0], send_int32_ok = True,
        socket_ret = 5, socket_errno = 0, connect_ret = 0, connect_errno = 0, send_fd_ok = True\<rparr>"
      "[2, 0, 0, 53, 8, 8, 8, 8, 0, 0, 0, 0, 0, 0, 0, 0]"
      "\<lparr>IsHostAllowed = (\<lambda>a. False), AddrToString = (\<lambda>a. Inr ''8.8.8.8'')\<rparr>"
      "[\<lparr>recv_bytes = Some [2, 0, 0, 80, 127, 0, 0, 1, 0, 0, 0, 0, 0, 0, 0, 0], send_int32_ok = True,
        socket_ret = 6, socket_errno = 0, connect_ret = 0, connect_errno = 0, send_fd_ok = True\<rparr>]"]
  by (simp add: sizeof_sockaddr_in_def sa_family_def AF_INET_def NetworkProxyServer_def)

section \<open>Properties of the monitors\<close>

text \<open>
  C6, as stated, fails: the claim has every call of \<open>SetWallTimeLimit\<close> poke the
  monitor. With the clock at 1700000000 s, the ptrace monitor stores a deadline five
  seconds ahead without calling \<open>NotifyMonitor\<close>, and the unotify monitor disarms the
  deadline without calling it.
\<close>

theorem C6_counterexample:
  "notify_calls (SetWallTimeLimit (nanosecond_clock 1700000000000000000) PtraceMonitor 5000000000
      \<lparr>deadline_millis = 0, external_kill_request_flag = True,
       dump_stack_request_flag = True, notify_calls = 0\<rparr>) = 0
   \<and> deadline_millis (SetWallTimeLimit (nanosecond_clock 1700000000000000000) PtraceMonitor
      5000000000
      \<lparr>deadline_millis = 0, external_kill_request_flag = True,
       dump_stack_request_flag = True, notify_calls = 0\<rparr>) = 1700000005000
   \<and> notify_calls (SetWallTimeLimit (nanosecond_clock 1700000000000000000) UnotifyMonitor 0
      \<lparr>deadline_millis = 1700000005000, external_kill_request_flag = True,
       dump_stack_request_flag = True, notify_calls = 0\<rparr>) = 0
   \<and> deadline_millis (SetWallTimeLimit (nanosecond_clock 1700000000000000000) UnotifyMonitor 0
      \<lparr>deadline_millis = 1700000005000, external_kill_request_flag = True,
       dump_stack_request_flag = True, notify_calls = 0\<rparr>) = 0"
  by (simp add: PtraceMonitor_SetWallTimeLimit_def UnotifyMonitor_SetWallTimeLimit_def
      nanosecond_clock_def)

text \<open>
  C6, amended. On either variant, and for every duration the library has, a call of
  \<open>SetWallTimeLimit\<close> changes the monitor by one store to the 64-bit
  \<open>deadline_millis\<close>: 0 when the limit is the zero duration (disarmed), otherwise the
  \<open>int64_t\<close> that \<open>absl::ToUnixMillis\<close> returns for \<open>absl::Now() + limit\<close>. The
  monitor is poked exactly once when the unotify variant arms a deadline, and not at
  all otherwise: the ptrace variant never pokes, and disarming never pokes. Nothing
  else of the monitor changes.
\<close>

theorem C6_deadline_stored_and_poke_only_when_arming_unotify:
  "SetWallTimeLimit absl kind limit m =
     m\<lparr>deadline_millis :=
         (if limit = ZeroDuration absl then 0
          else ToUnixMillis absl (plus_duration absl (Now absl) limit)),
       notify_calls :=
         (if kind = UnotifyMonitor \<and> limit \<noteq> ZeroDuration absl then Suc (notify_calls m)
          else notify_calls m)\<rparr>"
  by (cases kind)
     (simp_all add: PtraceMonitor_SetWallTimeLimit_def UnotifyMonitor_SetWallTimeLimit_def
        NotifyMonitor_def Let_def)

theorem C6_deadline_stored_and_poke_only_when_arming_unotify_witness:
  "SetWallTimeLimit (nanosecond_clock 1700000000000000000) UnotifyMonitor 5000000000
      \<lparr>deadline_millis = 0, external_kill_request_flag = True,
       dump_stack_request_flag = True, notify_calls = 0\<rparr>
   = \<lparr>deadline_millis = 1700000005000, external_kill_request_flag = True,
       dump_stack_request_flag = True, notify_calls = 1\<rparr>
   \<and> sint (deadline_millis
        (SetWallTimeLimit (nanosecond_clock 1700000000000000000) PtraceMonitor
           (10 ^ 25)
           \<lparr>deadline_millis = 0, external_kill_request_flag = True,
            dump_stack_request_flag = True, notify_calls = 0\<rparr>)) = 2 ^ 63 - 1"
  using C6_deadline_stored_and_poke_only_when_arming_unotify
    [of "nanosecond_clock 1700000000000000000" UnotifyMonitor 5000000000
      "\<lparr>deadline_millis = 0, external_kill_request_flag = True,
       dump_stack_request_flag = True, notify_calls = 0\<rparr>"]
    C6_deadline_stored_and_poke_only_when_arming_unotify
    [of "nanosecond_clock 1700000000000000000" PtraceMonitor "10 ^ 25"
      "\<lparr>deadline_millis = 0, external_kill_request_flag = True,
       dump_stack_request_flag = True, notify_calls = 0\<rparr>"]
  by (simp add: nanosecond_clock_def)

section \<open>Properties of the move assignment of Comms\<close>

text \<open>
  C9. After \<open>a = std::move(b)\<close> on two distinct objects, \<open>a\<close> holds exactly what
  \<open>b\<close> held (name, socket kind, connection, listening socket and state); \<open>b\<close> is
  terminated (\<open>IsTerminated\<close>, not \<open>IsConnected\<close>) and owns no descriptor; the
  descriptors closed are those \<open>a\<close> owned before, so what \<open>a\<close> took over from \<open>b\<close>
  stays open; every later operation on \<open>b\<close> fails, whatever the kernel would answer;
  and no other object changes. A self-move-assignment leaves the store as it was.
\<close>

theorem C9_move_assignment:
  "(a \<noteq> b \<longrightarrow>
      object_at (move_assign a b st) a = object_at st b
    \<and> state (object_at (move_assign a b st) b) = kTerminated
    \<and> IsTerminated (object_at (move_assign a b st) b)
    \<and> \<not> IsConnected (object_at (move_assign a b st) b)
    \<and> owned_fds (object_at (move_assign a b st) b) = {}
    \<and> open_fds (move_assign a b st) = open_fds st - owned_fds (object_at st a)
    \<and> (\<forall>io. \<not> comms_operation io (object_at (move_assign a b st) b))
    \<and> (\<forall>c. c \<noteq> a \<and> c \<noteq> b \<longrightarrow> object_at (move_assign a b st) c = object_at st c))
   \<and> move_assign a a st = st"
  by (auto simp: move_assign_def swap_comms_def Terminate_def Let_def Swap_def
      IsTerminated_def IsConnected_def owned_fds_def comms_operation_def)

theorem C9_move_assignment_witness:
  "(1::nat) \<noteq> 2
   \<and> object_at (move_assign 1 2 two_channels) 1 =
        \<lparr>name = ''b'', abstract_uds = True, raw_comms = RawCommsFdImpl 9,
         listening_comms = None, state = kConnected\<rparr>
   \<and> object_at (move_assign 1 2 two_channels) 2 =
        \<lparr>name = ''a'', abstract_uds = True, raw_comms = RawCommsPtr None,
         listening_comms = None, state = kTerminated\<rparr>
   \<and> open_fds (move_assign 1 2 two_channels) = {9}
   \<and> \<not> comms_operation (\<lambda>fd. True) (object_at (move_assign 1 2 two_channels) 2)
   \<and> comms_operation (\<lambda>fd. True) (object_at (move_assign 1 2 two_channels) 1)
   \<and> move_assign 1 1 two_channels = two_channels"
  using C9_move_assignment [of 1 2 two_channels] C9_move_assignment [of 1 1 two_channels]
  by (auto simp: two_channels_def owned_fds_def move_assign_def swap_comms_def Terminate_def
      Let_def Swap_def comms_operation_def)

section \<open>Properties of raw logging\<close>

declare decimal.simps [simp del]

lemma to_size_t_nat: "to_size_t (int n) = n" if "n < 2 ^ 64"
  using that by (simp add: to_size_t_def nat_mod_distrib flip: of_nat_power of_nat_mod)

lemma to_size_t_small: "0 \<le> i \<Longrightarrow> i \<le> 2147483647 \<Longrightarrow> to_size_t i = nat i"
  by (simp add: to_size_t_def)

lemma vs_written_length: "length (vs_written sz out) \<le> sz"
  by (cases out) (auto simp: vs_written_def)

lemma vs_written_NUL: "0 < sz \<Longrightarrow> NUL \<in> set (vs_written sz (Formatted str))"
  by (simp add: vs_written_def)

lemma vs_written_0: "vs_written 0 out = []"
  by (cases out) (auto simp: vs_written_def)

lemma store_at_length: "store_at mem at w = Some mem' \<Longrightarrow> length mem' = length mem"
  by (auto simp: store_at_def split: if_splits)

lemma store_at_set: "store_at mem at w = Some mem' \<Longrightarrow> set w \<subseteq> set mem'"
  by (auto simp: store_at_def split: if_splits)

lemma store_at_Nil: "store_at mem at [] = Some mem' \<Longrightarrow> mem' = mem"
  by (auto simp: store_at_def split: if_splits)

lemma vsnprintf_in_bounds:
  assumes "cursor_ok N c" and "N \<le> 2147483647"
  shows "\<exists>mem'. vsnprintf (buffer c) (buf c) (to_size_t (size_left c)) out
                  = Some (mem', vs_return out)
               \<and> store_at (buffer c) (buf c) (vs_written (nat (size_left c)) out) = Some mem'"
proof -
  have sz: "to_size_t (size_left c) = nat (size_left c)"
    using assms by (intro to_size_t_small) (auto simp: cursor_ok_def)
  have "buf c + length (vs_written (nat (size_left c)) out) \<le> length (buffer c)"
    using assms(1) vs_written_length [of "nat (size_left c)" out]
    by (auto simp: cursor_ok_def)
  then show ?thesis
    by (simp add: vsnprintf_def sz store_at_def)
qed

lemma DoRawLog_in_bounds:
  assumes "cursor_ok N c" and "N \<le> 2147483647"
  shows "\<exists>c' r. DoRawLog c out = Some (c', r) \<and> cursor_ok N c'
            \<and> store_at (buffer c) (buf c) (vs_written (nat (size_left c)) out) = Some (buffer c')"
proof -
  obtain mem' where v: "vsnprintf (buffer c) (buf c) (to_size_t (size_left c)) out
                          = Some (mem', vs_return out)"
    and st: "store_at (buffer c) (buf c) (vs_written (nat (size_left c)) out) = Some mem'"
    using vsnprintf_in_bounds [OF assms] by blast
  have len: "length mem' = N"
    using store_at_length [OF st] assms(1) by (simp add: cursor_ok_def)
  show ?thesis
    using assms(1) len st
    by (auto simp: DoRawLog_def v cursor_ok_def)
qed

lemma sizeof_kTruncated_26: "sizeof_kTruncated = 26"
  by (simp add: sizeof_kTruncated_def kTruncated_def)

lemma VADoRawLog_in_bounds:
  assumes "cursor_ok N c" and "N \<le> 2147483647"
  shows "\<exists>c' r. VADoRawLog c out = Some (c', r) \<and> cursor_ok N c'
            \<and> store_at (buffer c) (buf c) (vs_written (nat (size_left c)) out) = Some (buffer c')
            \<and> (0 < size_left c \<longrightarrow> 0 < size_left c' \<or> (\<exists>str. out = Formatted str))"
proof -
  obtain mem' where v: "vsnprintf (buffer c) (buf c) (to_size_t (size_left c)) out
                          = Some (mem', vs_return out)"
    and st: "store_at (buffer c) (buf c) (vs_written (nat (size_left c)) out) = Some mem'"
    using vsnprintf_in_bounds [OF assms] by blast
  have len: "length mem' = N"
    using store_at_length [OF st] assms(1) by (simp add: cursor_ok_def)
  have sz: "to_size_t (size_left c) = nat (size_left c)"
    using assms by (intro to_size_t_small) (auto simp: cursor_ok_def)
  have ok: "0 \<le> size_left c" "int (buf c) + size_left c = int N"
    using assms(1) by (auto simp: cursor_ok_def)
  define n where "n = vs_return out"
  define truncated where "truncated = (n < 0 \<or> n > size_left c)"
  define n' where "n' = (if truncated
                     then (if nat (size_left c) > 26 then size_left c - 26 else 0)
                     else n)"
  have v': "vsnprintf (buffer c) (buf c) (nat (size_left c)) out = Some (mem', vs_return out)"
    using v by (simp add: sz)
  have res: "VADoRawLog c out =
      Some (c\<lparr>buffer := mem', buf := buf c + nat n', size_left := size_left c - n'\<rparr>,
            \<not> truncated)"
    by (simp add: VADoRawLog_def v' Let_def sz sizeof_kTruncated_26 n_def truncated_def n'_def)
  have n'_range: "0 \<le> n'" "n' \<le> size_left c"
    using ok(1) by (auto simp: n'_def truncated_def)
  have pos: "0 < size_left c \<Longrightarrow> 0 < size_left c - n' \<or> (\<exists>str. out = Formatted str)"
    by (cases out) (auto simp: n'_def truncated_def n_def vs_return_def)
  have "cursor_ok N (c\<lparr>buffer := mem', buf := buf c + nat n', size_left := size_left c - n'\<rparr>)"
    using ok n'_range len by (simp add: cursor_ok_def)
  then show ?thesis
    using res st pos by auto
qed

lemma DoRawLog_keeps_NUL:
  assumes "DoRawLog c (Formatted str) = Some (c', r)"
    and "store_at (buffer c) (buf c) (vs_written (nat (size_left c)) (Formatted str))
           = Some (buffer c')"
    and "0 < size_left c \<or> NUL \<in> set (buffer c)"
  shows "NUL \<in> set (buffer c')"
proof (cases "0 < size_left c")
  case True
  then have "NUL \<in> set (vs_written (nat (size_left c)) (Formatted str))"
    by (intro vs_written_NUL) simp
  then show ?thesis
    using store_at_set [OF assms(2)] by auto
next
  case False
  then have "vs_written (nat (size_left c)) (Formatted str) = []"
    by (simp add: vs_written_0)
  then have "buffer c' = buffer c"
    using assms(2) store_at_Nil by simp
  then show ?thesis
    using assms(3) False by simp
qed

lemma takeWhile_shorter:
  "x \<in> set xs \<Longrightarrow> length (takeWhile (\<lambda>ch. ch \<noteq> x) xs) < length xs"
  by (induction xs) auto

lemma take_length_takeWhile:
  "take (length (takeWhile P xs)) xs = takeWhile P xs"
  by (induction xs) auto

lemma takeWhile_without:
  "x \<notin> set (takeWhile (\<lambda>ch. ch \<noteq> x) xs)"
  using set_takeWhileD [of x "\<lambda>ch. ch \<noteq> x" xs] by auto

text \<open>
  Whatever the message formats to, and whatever the array held before, no call writes
  outside the array, the final array holds a terminator, and the line handed to
  \<open>write\<close> is shorter than the array.
\<close>

theorem RawLogVA_stays_inside_the_buffer:
  assumes "0 < length stack" and "length stack \<le> 2147483647"
  shows "\<exists>r. RawLogVA stack severity file line msg = Some r
            \<and> length (final_buffer r) = length stack
            \<and> length (stderr_bytes r) < length stack
            \<and> NUL \<notin> set (stderr_bytes r)"
proof -
  let ?N = "length stack"
  let ?c0 = "\<lparr>buffer = stack, buf = 0, size_left = int (length stack)\<rparr>"
  have ok0: "cursor_ok ?N ?c0"
    by (simp add: cursor_ok_def)
  obtain c1 r1 where s1: "DoRawLog ?c0 (Formatted (raw_prefix file line)) = Some (c1, r1)"
    and ok1: "cursor_ok ?N c1"
    and st1: "store_at (buffer ?c0) (buf ?c0)
                (vs_written (nat (size_left ?c0)) (Formatted (raw_prefix file line)))
              = Some (buffer c1)"
    using DoRawLog_in_bounds [OF ok0 assms(2)] by blast
  have nul1: "NUL \<in> set (buffer c1)"
    using DoRawLog_keeps_NUL [OF s1 st1] assms(1) by simp
  obtain c2 r2 where s2: "VADoRawLog c1 msg = Some (c2, r2)"
    and ok2: "cursor_ok ?N c2"
    and st2: "store_at (buffer c1) (buf c1) (vs_written (nat (size_left c1)) msg)
              = Some (buffer c2)"
    and pos2: "0 < size_left c1 \<longrightarrow> 0 < size_left c2 \<or> (\<exists>str. msg = Formatted str)"
    using VADoRawLog_in_bounds [OF ok1 assms(2)] by blast
  have nul2: "0 < size_left c2 \<or> NUL \<in> set (buffer c2)"
  proof (cases "0 < size_left c1")
    case True
    show ?thesis
    proof (cases "0 < size_left c2")
      case False
      then obtain str where "msg = Formatted str"
        using pos2 True by blast
      then have "NUL \<in> set (vs_written (nat (size_left c1)) msg)"
        using True by (simp add: vs_written_NUL)
      then show ?thesis
        using store_at_set [OF st2] by auto
    qed simp
  next
    case False
    then have "vs_written (nat (size_left c1)) msg = []"
      by (simp add: vs_written_0)
    then have "buffer c2 = buffer c1"
      using st2 store_at_Nil by simp
    then show ?thesis
      using nul1 by simp
  qed
  let ?tail = "Formatted (if r2 then [CHR 0x0A] else kTruncated)"
  obtain c3 r3 where s3: "DoRawLog c2 ?tail = Some (c3, r3)"
    and ok3: "cursor_ok ?N c3"
    and st3: "store_at (buffer c2) (buf c2) (vs_written (nat (size_left c2)) ?tail)
              = Some (buffer c3)"
    using DoRawLog_in_bounds [OF ok2 assms(2)] by blast
  have nul3: "NUL \<in> set (buffer c3)"
    using DoRawLog_keeps_NUL [OF s3 st3 nul2] .
  have len3: "length (buffer c3) = ?N"
    using ok3 by (simp add: cursor_ok_def)
  let ?len = "length (takeWhile (\<lambda>ch. ch \<noteq> NUL) (buffer c3))"
  have sl: "strlen (buffer c3) = Some ?len"
    using nul3 by (simp add: strlen_def)
  have lt: "?len < ?N"
    using takeWhile_shorter [OF nul3] len3 by simp
  have tk: "take ?len (buffer c3) = takeWhile (\<lambda>ch. ch \<noteq> NUL) (buffer c3)"
    by (rule take_length_takeWhile)
  have noN: "NUL \<notin> set (takeWhile (\<lambda>ch. ch \<noteq> NUL) (buffer c3))"
    by (rule takeWhile_without)
  show ?thesis
    using s1 s2 s3 sl lt tk noN len3
    by (simp add: RawLogVA_def)
qed


lemma strlen_no_NUL_prefix:
  "NUL \<notin> set xs \<Longrightarrow> strlen (xs @ NUL # ys) = Some (length xs)"
  by (induction xs) (auto simp: strlen_def)

lemma kTruncated_length: "length kTruncated = 25"
  by (simp add: kTruncated_def)

lemma kTruncated_no_NUL: "NUL \<notin> set kTruncated"
  by (simp add: kTruncated_def NUL_def)

text \<open>
  A message whose expansion is exactly as long as the space left: \<open>vsnprintf\<close> returns
  that length, which the test \<open>n > *size\<close> takes for a fit, although the last character
  was cut to make room for the terminator. No space is left for the newline either.
\<close>

lemma RawLogVA_exact_fit:
  assumes N: "length stack = N" "N \<le> 2147483647"
    and p: "length (raw_prefix file line) < N" "NUL \<notin> set (raw_prefix file line)"
    and m: "length m = N - length (raw_prefix file line)" "NUL \<notin> set (butlast m)"
  shows "RawLogVA stack severity file line (Formatted m) =
           Some \<lparr>stderr_bytes = raw_prefix file line @ butlast m,
                 final_buffer = raw_prefix file line @ butlast m @ [NUL],
                 aborted = (severity = kFatal)\<rparr>"
proof -
  let ?p = "raw_prefix file line"
  let ?mem1 = "?p @ NUL # drop (Suc (length ?p)) stack"
  let ?mem2 = "?p @ butlast m @ [NUL]"
  have N64: "N < 2 ^ 64" using N(2) by simp
  have k64: "N - length ?p < 2 ^ 64" using N(2) by simp
  have m_ne: "m \<noteq> []" using m(1) p(1) by auto
  have s1: "DoRawLog \<lparr>buffer = stack, buf = 0, size_left = int (length stack)\<rparr> (Formatted ?p)
            = Some (\<lparr>buffer = ?mem1, buf = length ?p, size_left = int N - int (length ?p)\<rparr>, True)"
    using N p(1) N64
    by (simp add: DoRawLog_def vsnprintf_def store_at_def vs_written_def vs_return_def
        to_size_t_nat INT_MAX_def)
  have sz2: "to_size_t (int N - int (length ?p)) = N - length ?p"
    using to_size_t_nat [OF k64] p(1) by (simp add: of_nat_diff)
  have tk: "take (N - Suc (length ?p)) m = butlast m"
    using m(1) by (simp add: butlast_conv_take)
  have nt: "nat (int N - int (length ?p)) = N - length ?p"
    by simp
  have s2: "VADoRawLog \<lparr>buffer = ?mem1, buf = length ?p, size_left = int N - int (length ?p)\<rparr> (Formatted m)
            = Some (\<lparr>buffer = ?mem2, buf = N, size_left = 0\<rparr>, True)"
    using N p(1) m(1) m_ne
    by (simp add: VADoRawLog_def vsnprintf_def store_at_def vs_written_def vs_return_def
        sz2 tk nt INT_MAX_def Let_def)
  have s3: "DoRawLog \<lparr>buffer = ?mem2, buf = N, size_left = 0\<rparr> (Formatted [CHR 0x0A])
            = Some (\<lparr>buffer = ?mem2, buf = N, size_left = 0\<rparr>, False)"
    using N p(1) m(1) m_ne
    by (simp add: DoRawLog_def vsnprintf_def store_at_def vs_written_def vs_return_def
        to_size_t_def INT_MAX_def)
  have len: "strlen ?mem2 = Some (length (?p @ butlast m))"
    using strlen_no_NUL_prefix [of "?p @ butlast m" "[]"] p(2) m(2) by simp
  show ?thesis
    unfolding RawLogVA_def s1 using s2 s3 len N(1)
    by simp
qed

text \<open>
  A message longer than the space left, with more than \<open>sizeof(kTruncated)\<close> bytes
  left: the line ends with the truncation marker.
\<close>

lemma RawLogVA_truncated:
  assumes N: "length stack = N" "N \<le> 2147483647"
    and p: "length (raw_prefix file line) + 26 < N" "NUL \<notin> set (raw_prefix file line)"
    and m: "N - length (raw_prefix file line) < length m"
           "NUL \<notin> set (take (N - (length (raw_prefix file line) + 26)) m)"
  shows "RawLogVA stack severity file line (Formatted m) =
           Some \<lparr>stderr_bytes = raw_prefix file line
                                  @ take (N - (length (raw_prefix file line) + 26)) m @ kTruncated,
                 final_buffer = raw_prefix file line
                                  @ take (N - (length (raw_prefix file line) + 26)) m @ kTruncated
                                  @ [NUL],
                 aborted = (severity = kFatal)\<rparr>"
proof -
  let ?p = "raw_prefix file line"
  let ?k = "N - length ?p"
  let ?k1 = "N - Suc (length ?p)"
  let ?k26 = "N - (length ?p + 26)"
  let ?mem1 = "?p @ NUL # drop (Suc (length ?p)) stack"
  let ?mem2 = "?p @ take ?k1 m @ [NUL]"
  let ?mem3 = "?p @ take ?k26 m @ kTruncated @ [NUL]"
  let ?c1 = "\<lparr>buffer = ?mem1, buf = length ?p, size_left = int N - int (length ?p)\<rparr>"
  let ?c2 = "\<lparr>buffer = ?mem2, buf = length ?p + ?k26, size_left = 26\<rparr>"
  have N64: "N < 2 ^ 64" using N(2) by simp
  have k64: "?k < 2 ^ 64" using N(2) by simp
  have s1: "DoRawLog \<lparr>buffer = stack, buf = 0, size_left = int (length stack)\<rparr> (Formatted ?p)
            = Some (?c1, True)"
    using N p(1) N64
    by (simp add: DoRawLog_def vsnprintf_def store_at_def vs_written_def vs_return_def
        to_size_t_nat INT_MAX_def)
  have sz2: "to_size_t (int N - int (length ?p)) = ?k"
    using to_size_t_nat [OF k64] p(1) by (simp add: of_nat_diff)
  have ret: "vs_return (Formatted m) < 0 \<or> int N - int (length ?p) < vs_return (Formatted m)"
    using m(1) p(1) by (auto simp: vs_return_def)
  have w2: "vs_written ?k (Formatted m) = take ?k1 m @ [NUL]"
    using p(1) by (simp add: vs_written_def)
  have st2: "store_at ?mem1 (length ?p) (take ?k1 m @ [NUL]) = Some ?mem2"
    using N(1) p(1) m(1) by (auto simp: store_at_def min_def)
  have v2: "vsnprintf ?mem1 (length ?p) ?k (Formatted m) = Some (?mem2, vs_return (Formatted m))"
    unfolding vsnprintf_def w2 st2 by simp
  have n': "int N - int (length ?p) - 26 = int ?k26" "nat (int ?k26) = ?k26"
    using p(1) by simp_all
  have s2: "VADoRawLog ?c1 (Formatted m) = Some (?c2, False)"
    using ret p(1)
    by (simp add: VADoRawLog_def sz2 v2 Let_def sizeof_kTruncated_26 n') arith
  have w3: "vs_written 26 (Formatted kTruncated) = kTruncated @ [NUL]"
    by (simp add: vs_written_def kTruncated_length)
  have tt: "take ?k26 (take ?k1 m) = take ?k26 m"
    using p(1) by (simp add: min_def)
  have st3: "store_at ?mem2 (length ?p + ?k26) (kTruncated @ [NUL]) = Some ?mem3"
    using N(1) p(1) m(1) by (auto simp: store_at_def kTruncated_length tt add.commute)
  have v3: "vsnprintf ?mem2 (length ?p + ?k26) 26 (Formatted kTruncated) = Some (?mem3, 25)"
    unfolding vsnprintf_def w3 st3 by (simp add: vs_return_def kTruncated_length INT_MAX_def)
  have s3: "DoRawLog ?c2 (Formatted kTruncated)
            = Some (\<lparr>buffer = ?mem3, buf = length ?p + ?k26 + 25, size_left = 1\<rparr>, True)"
    by (simp add: DoRawLog_def to_size_t_def v3)
  define X where "X = ?p @ take ?k26 m @ kTruncated"
  have mem3: "?mem3 = X @ [NUL]"
    by (simp add: X_def)
  have "NUL \<notin> set X"
    using p(2) m(2) kTruncated_no_NUL by (simp add: X_def)
  then have len: "strlen (X @ [NUL]) = Some (length X)"
    by (rule strlen_no_NUL_prefix)
  have "RawLogVA stack severity file line (Formatted m) =
          Some \<lparr>stderr_bytes = X, final_buffer = X @ [NUL], aborted = (severity = kFatal)\<rparr>"
    unfolding RawLogVA_def s1 by (simp add: s2 s3 mem3 len)
  then show ?thesis
    by (simp add: X_def)
qed

lemma prefix_f_1: "raw_prefix ''f'' 1 = ''[f : 1] RAW: ''"
  by (simp add: raw_prefix_def percent_d_def decimal.simps)

text \<open>
  C10, at the boundary. With an array of 3000 bytes, the file name \<open>f\<close> and line 1,
  the prefix takes 13 bytes and 2987 are left. A message of exactly 2987 characters does
  not fit (the terminator needs the last byte), yet the line written to stderr is the
  prefix and the first 2986 characters, with neither the truncation marker nor a
  newline. One character more, and the marker is there. (\<open>kLogBufSize\<close> is declared
  in raw\_logging.h; the two lemmas above hold for every size of the array.)
\<close>

theorem C10_exact_fit_is_cut_without_marker:
  "RawLogVA (replicate 3000 (CHR ''?'')) kInfo ''f'' 1 (Formatted (replicate 2987 (CHR ''x'')))
     = Some \<lparr>stderr_bytes = ''[f : 1] RAW: '' @ replicate 2986 (CHR ''x''),
             final_buffer = ''[f : 1] RAW: '' @ replicate 2986 (CHR ''x'') @ [NUL],
             aborted = False\<rparr>
   \<and> RawLogVA (replicate 3000 (CHR ''?'')) kInfo ''f'' 1 (Formatted (replicate 2988 (CHR ''x'')))
     = Some \<lparr>stderr_bytes = ''[f : 1] RAW: '' @ replicate 2961 (CHR ''x'') @ kTruncated,
             final_buffer = ''[f : 1] RAW: '' @ replicate 2961 (CHR ''x'') @ kTruncated @ [NUL],
             aborted = False\<rparr>"
  using RawLogVA_exact_fit [of "replicate 3000 (CHR ''?'')" 3000 "''f''" 1
      "replicate 2987 (CHR ''x'')" kInfo]
    RawLogVA_truncated [of "replicate 3000 (CHR ''?'')" 3000 "''f''" 1
      "replicate 2988 (CHR ''x'')" kInfo]
  by (simp add: prefix_f_1 NUL_def butlast_conv_take)

section \<open>Properties of path validation\<close>

lemma split_slash_not_Nil [simp]: "split_slash s \<noteq> []"
  by (induction s) (auto split: list.splits)

lemma join_split [simp]: "join_slash (split_slash s) = s"
proof (induction s)
  case Nil
  then show ?case by simp
next
  case (Cons c cs)
  obtain x xs where sp: "split_slash cs = x # xs"
    by (cases "split_slash cs") auto
  show ?case
    using Cons sp by (cases xs) auto
qed

lemma split_no_slash: "x \<in> set (split_slash s) \<Longrightarrow> CHR ''/'' \<notin> set x"
  by (induction s arbitrary: x) (auto split: list.splits if_splits)

lemma split_plain: "CHR ''/'' \<notin> set x \<Longrightarrow> split_slash x = [x]"
  by (induction x) auto

lemma split_append_slash:
  "CHR ''/'' \<notin> set x \<Longrightarrow> split_slash (x @ CHR ''/'' # s) = x # split_slash s"
  by (induction x) auto

lemma split_join:
  "xs \<noteq> [] \<Longrightarrow> (\<And>x. x \<in> set xs \<Longrightarrow> CHR ''/'' \<notin> set x) \<Longrightarrow> split_slash (join_slash xs) = xs"
proof (induction xs rule: join_slash.induct)
  case 1
  then show ?case by simp
next
  case (2 x)
  then show ?case by (simp add: split_plain)
next
  case (3 x y ys)
  then show ?case by (simp add: split_append_slash)
qed


lemma clean_parts_ordinary:
  "list_all ordinary ps \<Longrightarrow> clean_parts ps (acc, d) = (acc @ ps, d)"
  by (induction ps arbitrary: acc) (auto simp: ordinary_def)

lemma clean_parts_subset:
  "set (fst (clean_parts ps (acc, d))) \<subseteq> set acc \<union> {part \<in> set ps. part \<noteq> ''.'' \<and> part \<noteq> ''..''}"
proof (induction ps arbitrary: acc d)
  case Nil
  then show ?case by simp
next
  case (Cons part rest)
  have bl: "set (butlast acc) \<subseteq> set acc"
    by (auto dest: in_set_butlastD)
  show ?case
    using Cons [of acc "Suc d"] Cons [of "butlast acc" d] Cons [of "acc @ [part]" d] Cons [of acc d] bl
    by (auto split: if_splits)
qed

lemma join_root: "parts \<noteq> [] \<Longrightarrow> join_slash ([] # parts) = CHR ''/'' # join_slash parts"
  by (cases parts) auto

lemma split_root: "split_slash (CHR ''/'' # rest) = [] # split_slash rest"
  by simp

lemma CleanPath_root: "CleanPath ''/'' = ''/''"
  by (simp add: CleanPath_def IsAbsolutePath_def)

lemma CleanPath_fixpoint:
  assumes "IsAbsolutePath path"
  shows "CleanPath path = path \<longleftrightarrow>
           path = ''/'' \<or> list_all ordinary (split_slash (tl path))"
proof -
  obtain rest where path: "path = CHR ''/'' # rest"
    using assms by (auto simp: IsAbsolutePath_def split: list.splits)
  let ?input = "filter (\<lambda>part. part \<noteq> []) (split_slash path)"
  obtain parts d where cp: "clean_parts ?input ([], 0) = (parts, d)"
    by (cases "clean_parts ?input ([], 0)") auto
  have clean: "CleanPath path = (if parts = [] then ''/'' else CHR ''/'' # join_slash parts)"
    using assms cp by (simp add: CleanPath_def join_root)
  show ?thesis
  proof
    assume fixp: "CleanPath path = path"
    show "path = ''/'' \<or> list_all ordinary (split_slash (tl path))"
    proof (cases "parts = []")
      case True
      then show ?thesis using fixp clean by simp
    next
      case False
      then have rest: "rest = join_slash parts"
        using fixp clean path by simp
      have sub: "set parts \<subseteq> {part \<in> set ?input. part \<noteq> ''.'' \<and> part \<noteq> ''..''}"
        using clean_parts_subset [of ?input "[]" 0] cp by simp
      have noslash: "\<And>x. x \<in> set parts \<Longrightarrow> CHR ''/'' \<notin> set x"
        using sub split_no_slash by fastforce
      have "split_slash rest = parts"
        unfolding rest using False noslash by (rule split_join)
      moreover have "list_all ordinary parts"
        using sub by (auto simp: list_all_iff ordinary_def)
      ultimately show ?thesis
        using path by simp
    qed
  next
    assume "path = ''/'' \<or> list_all ordinary (split_slash (tl path))"
    then show "CleanPath path = path"
    proof
      assume "path = ''/''"
      then show ?thesis by (simp add: CleanPath_root)
    next
      assume ord: "list_all ordinary (split_slash (tl path))"
      then have ord': "list_all ordinary (split_slash rest)"
        using path by simp
      then have "filter (\<lambda>part. part \<noteq> []) (split_slash rest) = split_slash rest"
        by (auto simp: list_all_iff ordinary_def filter_id_conv)
      then have "?input = split_slash rest"
        using path by simp
      then have "clean_parts ?input ([], 0) = (split_slash rest, 0)"
        using clean_parts_ordinary [OF ord', of "[]" 0] by simp
      then have "parts = split_slash rest"
        using cp by simp
      then show ?thesis
        using clean path by simp
    qed
  qed
qed

lemma hd_split_empty: "hd (split_slash s) = [] \<longleftrightarrow> s = [] \<or> hd s = CHR ''/''"
  by (cases s) (auto split: list.splits)

lemma empty_part_iff:
  "[] \<in> set (tl (split_slash s)) \<longleftrightarrow> double_slash s \<or> (s \<noteq> [] \<and> last s = CHR ''/'')"
proof (induction s)
  case Nil
  then show ?case by simp
next
  case (Cons c cs)
  obtain x xs where sp: "split_slash cs = x # xs"
    by (cases "split_slash cs") auto
  have hd: "x = [] \<longleftrightarrow> cs = [] \<or> hd cs = CHR ''/''"
    using hd_split_empty [of cs] sp by simp
  show ?case
  proof (cases "c = CHR ''/''")
    case True
    then show ?thesis
      using Cons sp hd by (cases cs) auto
  next
    case False
    then show ?thesis
      using Cons sp by (cases cs) auto
  qed
qed

lemma canonical_absolute_iff:
  "canonical_absolute path \<longleftrightarrow>
     IsAbsolutePath path \<and> (path = ''/'' \<or> list_all ordinary (split_slash (tl path)))"
proof (cases "IsAbsolutePath path")
  case False
  then show ?thesis by (simp add: canonical_absolute_def)
next
  case True
  then obtain rest where path: "path = CHR ''/'' # rest"
    by (auto simp: IsAbsolutePath_def split: list.splits)
  have emp: "[] \<in> set (split_slash rest) \<longleftrightarrow> double_slash path \<or> (path \<noteq> [] \<and> last path = CHR ''/'')"
    using empty_part_iff [of path] path by simp
  show ?thesis
  proof (cases "rest = []")
    case True
    then show ?thesis
      using path by (simp add: canonical_absolute_def IsAbsolutePath_def trailing_slash_def)
  next
    case False
    then have "path \<noteq> ''/''" using path by simp
    then show ?thesis
      using True path emp
      by (auto simp: canonical_absolute_def trailing_slash_def list_all_iff ordinary_def)
  qed
qed

text \<open>The paths of the test \<open>TestValidateAbsolutePath\<close>: nine refused, three accepted.\<close>

lemma TestValidateAbsolutePath:
  "map ValidateAbsolutePath
     [''..'', ''a'', ''a/b'', ''a/b/c'', ''/a/b/c/../d'', ''/a/b/c/./d'', ''/a/b/c//d'',
      ''/a/b/c/d/'', ''/a/bAAAAAAAAAAAAAAAAAAAAAA/c/d/'']
     = replicate 9 (Inl InvalidArgument)
   \<and> map ValidateAbsolutePath
     [''/'', ''/a/b/c/d'', ''/a/b/AAAAAAAAAAAAAAAAAAAAAAAAAAAAAAAAAAAAAA'']
     = [Inr ''/'', Inr ''/a/b/c/d'', Inr ''/a/b/AAAAAAAAAAAAAAAAAAAAAAAAAAAAAAAAAAAAAA'']"
  by code_simp

text \<open>
  C5. \<open>ValidateAbsolutePath\<close> accepts \<open>/\<close>, and every canonical absolute path, and
  returns the path as it was given. It answers \<open>kInvalidArgument\<close> for every other
  path: one that is relative, has a double slash, ends in a slash, or has a component
  \<open>.\<close> or \<open>..\<close>.
\<close>

theorem C5_ValidateAbsolutePath:
  "ValidateAbsolutePath ''/'' = Inr ''/''
   \<and> (canonical_absolute path \<longrightarrow> ValidateAbsolutePath path = Inr path)
   \<and> (\<not> IsAbsolutePath path \<or> double_slash path \<or> trailing_slash path
        \<or> ''.'' \<in> set (split_slash path) \<or> ''..'' \<in> set (split_slash path)
      \<longrightarrow> ValidateAbsolutePath path = Inl InvalidArgument)"
proof -
  have fixp: "IsAbsolutePath path \<Longrightarrow> CleanPath path = path \<longleftrightarrow> canonical_absolute path"
    using CleanPath_fixpoint [of path] canonical_absolute_iff [of path] by simp
  have root: "ValidateAbsolutePath ''/'' = Inr ''/''"
    by (simp add: ValidateAbsolutePath_def CleanPath_root IsAbsolutePath_def)
  have good: "canonical_absolute path \<Longrightarrow> ValidateAbsolutePath path = Inr path"
    using fixp by (auto simp: ValidateAbsolutePath_def canonical_absolute_def)
  have bad: "\<not> canonical_absolute path \<Longrightarrow> ValidateAbsolutePath path = Inl InvalidArgument"
    using fixp by (auto simp: ValidateAbsolutePath_def)
  show ?thesis
    using root good bad by (auto simp: canonical_absolute_def)
qed

theorem C5_ValidateAbsolutePath_witness:
  "canonical_absolute ''/a/b/c/d''
   \<and> ValidateAbsolutePath ''/a/b/c/d'' = Inr ''/a/b/c/d''
   \<and> ''..'' \<in> set (split_slash ''/a/b/c/../d'')
   \<and> ValidateAbsolutePath ''/a/b/c/../d'' = Inl InvalidArgument
   \<and> double_slash ''/a/b/c//d''
   \<and> ValidateAbsolutePath ''/a/b/c//d'' = Inl InvalidArgument
   \<and> trailing_slash ''/a/b/c/d/''
   \<and> ValidateAbsolutePath ''/a/b/c/d/'' = Inl InvalidArgument
   \<and> \<not> IsAbsolutePath ''a/b''
   \<and> ValidateAbsolutePath ''a/b'' = Inl InvalidArgument"
  using C5_ValidateAbsolutePath [of "''/a/b/c/d''"] C5_ValidateAbsolutePath [of "''/a/b/c/../d''"]
    C5_ValidateAbsolutePath [of "''/a/b/c//d''"] C5_ValidateAbsolutePath [of "''/a/b/c/d/''"]
    C5_ValidateAbsolutePath [of "''a/b''"]
  by (simp add: canonical_absolute_def IsAbsolutePath_def trailing_slash_def)

section \<open>Properties of the builder's rules\<close>

declare bpf_run.simps [simp del]







lemma CheckBpfBounds_return:
  "code flt = BPF_RET + BPF_K \<Longrightarrow> CheckBpfBounds flt n"
  by (simp add: CheckBpfBounds_def BPF_CLASS_def BPF_RET_def BPF_K_def BPF_JMP_def)




lemma bpf_run_empty:
  "bpf_run [] A 0 = PassedOn 0"
  by (simp add: bpf_run.simps)


text \<open>
  The steps of the test \<open>Testpolicy_size\<close> that use \<open>AllowSyscall\<close>,
  \<open>BlockSyscallWithErrno\<close> and \<open>AddPolicyOnSyscall\<close>, with \<open>AllowSyscall(__NR_munmap)\<close>
  in the place of \<open>AllowSystemMalloc()\<close>: the sizes the test asserts (same, larger) are
  the sizes of the model.
\<close>

lemma Testpolicy_size_rules:
  "map policy_size
     [new_PolicyBuilder,
      AllowSyscall NR_chroot new_PolicyBuilder,
      AllowSyscall NR_chroot (AllowSyscall NR_chroot new_PolicyBuilder),
      AllowSyscall NR_umask (AllowSyscall NR_chroot new_PolicyBuilder),
      AllowSyscall NR_chroot (AllowSyscall NR_umask (AllowSyscall NR_chroot new_PolicyBuilder)),
      AllowSyscall NR_munmap (AllowSyscall NR_umask (AllowSyscall NR_chroot new_PolicyBuilder)),
      BlockSyscallWithErrno records NR_munmap 1
        (AllowSyscall NR_munmap (AllowSyscall NR_umask (AllowSyscall NR_chroot new_PolicyBuilder))),
      BlockSyscallWithErrno records NR_openat 1
        (AllowSyscall NR_munmap (AllowSyscall NR_umask (AllowSyscall NR_chroot new_PolicyBuilder))),
      AddPolicyOnSyscall NR_fchmod [ALLOW] (AllowSyscall NR_umask new_PolicyBuilder),
      AddPolicyOnSyscall NR_fchmod [ALLOW]
        (AddPolicyOnSyscall NR_fchmod [ALLOW] (AllowSyscall NR_umask new_PolicyBuilder)),
      AddPolicyOnSyscall NR_umask [ALLOW] (AllowSyscall NR_umask new_PolicyBuilder),
      AddPolicyOnSyscall NR_umask [ALLOW]
        (AddPolicyOnSyscall NR_umask [ALLOW] (AllowSyscall NR_umask new_PolicyBuilder))]
   = [0, 2, 2, 4, 4, 6, 6, 8, 4, 6, 4, 6]"
  by (simp add: policy_size_def AllowSyscall_def BlockSyscallWithErrno_def new_PolicyBuilder_def
      AddPolicyOnSyscall_def on_syscall_def CheckBpfBounds_return ALLOW_def BPF_STMT_def
      SYSCALL_def NR_chroot_def NR_umask_def NR_munmap_def NR_openat_def NR_fchmod_def)

text \<open>The tests \<open>TestCanOnlyBuildOnce\<close> and \<open>AddPolicyOnSyscallJumpOutOfBounds\<close>.\<close>

lemma TestCanOnlyBuildOnce:
  "fst (TryBuild new_PolicyBuilder) = Built (Policy [])
   \<and> fst (TryBuild (snd (TryBuild new_PolicyBuilder))) = Failed FailedPrecondition"
  by (simp add: TryBuild_def new_PolicyBuilder_def bpf_run_empty)

lemma AddPolicyOnSyscallJumpOutOfBounds:
  "fst (TryBuild (AddPolicyOnSyscall NR_write [BPF_JUMP (BPF_JMP + BPF_JEQ + BPF_K) 1 2 0]
     new_PolicyBuilder)) = Failed InvalidArgument"
  by (simp add: TryBuild_def AddPolicyOnSyscall_def SetError_def new_PolicyBuilder_def
      CheckBpfBounds_def BPF_JUMP_def BPF_CLASS_def BPF_OP_def BPF_JMP_def BPF_JEQ_def
      BPF_K_def BPF_JA_def)




end
